theory Spec2Isabelle
  imports Main "HOL-Library.Word" "HOL-Library.Code_Target_Nat"
begin

section \<open>The pairing library as the verifier sees it\<close>

text \<open>
  \<^verbatim>\<open>verifier.hpp\<close> is a set of C++ templates over the type parameters
  \<^verbatim>\<open>ppT\<close>, \<^verbatim>\<open>FieldT\<close> and \<^verbatim>\<open>GroupT\<close> of the pairing library. A template
  parameter is modelled as the record of the static members that the code calls on it.

  The templates use one value where the declared C++ types name another in three places:
  \<^verbatim>\<open>delta.rhs = Group1T::one()\<close> stores a \<^verbatim>\<open>Group1T\<close> in a key of \<^verbatim>\<open>Group2T\<close>,
  \<^verbatim>\<open>double_miller_loop(g1_lhs, g2_lhs, g1_rhs, g1_rhs)\<close> passes a precomputed first-group
  point in the slot of a second-group one, and both \<^verbatim>\<open>same_ratio(key, delta)\<close> and
  \<^verbatim>\<open>same_ratio(delta, key)\<close> appear in one body. The statements are modelled as they are
  written, so the elements of both source groups have one type \<open>'g\<close> and their
  precomputed forms one type \<open>'p\<close>.
\<close>

type_synonym size_t = "64 word"

record 'f FieldT =
  f_one :: 'f
  f_mul :: "'f \<Rightarrow> 'f \<Rightarrow> 'f"
  sqr :: "'f \<Rightarrow> 'f"

record ('f, 'g) GroupT =
  zero :: 'g
  one :: 'g
  add :: "'g \<Rightarrow> 'g \<Rightarrow> 'g"
  mul :: "'g \<Rightarrow> 'f \<Rightarrow> 'g"
  sizeof :: nat

record ('g, 'p, 'k, 't) ppT =
  precompute_G1 :: "'g \<Rightarrow> 'p"
  precompute_G2 :: "'g \<Rightarrow> 'p"
  miller_loop :: "'p \<Rightarrow> 'p \<Rightarrow> 'k"
  double_miller_loop :: "'p \<Rightarrow> 'p \<Rightarrow> 'p \<Rightarrow> 'p \<Rightarrow> 'k"
  final_exponentiation :: "'k \<Rightarrow> 't"
  GT_one :: 't

text \<open>
  \<^verbatim>\<open>FieldT::random_element()\<close> reads the process-wide randomness source. The source is
  the sequence of the scalars it will return, \<open>rng 0\<close> the next one; a draw takes it and
  leaves the rest.
\<close>

type_synonym 'f rng = "nat \<Rightarrow> 'f"

definition rest :: "'f rng \<Rightarrow> 'f rng" where
  "rest rng = (\<lambda>n. rng (Suc n))"

definition random_element :: "'f rng \<Rightarrow> 'f \<times> 'f rng" where
  "random_element rng = (rng 0, rest rng)"

text \<open>The pairing of two points: the library's \<^verbatim>\<open>reduced_pairing\<close>.\<close>

definition reduced_pairing :: "('g, 'p, 'k, 't) ppT \<Rightarrow> 'g \<Rightarrow> 'g \<Rightarrow> 't" where
  "reduced_pairing pp P Q =
     final_exponentiation pp (miller_loop pp (precompute_G1 pp P) (precompute_G2 pp Q))"

text \<open>The \<open>n\<close>-th power of a scalar, by repeated \<open>f_mul\<close>.\<close>

primrec f_pow :: "'f FieldT \<Rightarrow> 'f \<Rightarrow> nat \<Rightarrow> 'f" where
  "f_pow F x 0 = f_one F"
| "f_pow F x (Suc n) = f_mul F x (f_pow F x n)"

section \<open>verifier.hpp\<close>

record 'g VerificationKey =
  lhs :: 'g
  rhs :: 'g

text \<open>
  The loop of \<^verbatim>\<open>same_ratio_preprocess\<close>,
  \<^verbatim>\<open>for (size_t i = 1; i < polynomial_degree - 1; ++i)\<close>, from the index \<open>i\<close> on.
  \<open>bound\<close> is the value of \<^verbatim>\<open>polynomial_degree - 1\<close>; the index stays below it, so it
  never wraps. A pointer \<^verbatim>\<open>GroupT *\<close> is the memory behind it, read by index.
\<close>

function same_ratio_preprocess_loop ::
  "'f FieldT \<Rightarrow> ('f, 'g) GroupT \<Rightarrow> (nat \<Rightarrow> 'g) \<Rightarrow> nat \<Rightarrow> nat \<Rightarrow> 'f \<Rightarrow> 'g \<Rightarrow> 'f \<times> 'g" where
  "same_ratio_preprocess_loop F G g1_points bound i scalar_multiplier accumulator =
     (if i < bound then
        (let scalar_multiplier' = sqr F scalar_multiplier;
             accumulator' = add G accumulator (mul G (g1_points i) scalar_multiplier')
         in same_ratio_preprocess_loop F G g1_points bound (Suc i) scalar_multiplier' accumulator')
      else (scalar_multiplier, accumulator))"
  by pat_completeness auto
termination
  by (relation "measure (\<lambda>(F, G, g1_points, bound, i, m, a). bound - i)") auto

declare same_ratio_preprocess_loop.simps [simp del]

text \<open>
  \<^verbatim>\<open>same_ratio_preprocess\<close> writes both fields of the key it is given by reference; the
  model returns the key, and the randomness source after the draw.
\<close>

definition same_ratio_preprocess ::
  "'f FieldT \<Rightarrow> ('f, 'g) GroupT \<Rightarrow> (nat \<Rightarrow> 'g) \<Rightarrow> size_t \<Rightarrow> 'f rng
     \<Rightarrow> 'g VerificationKey \<times> 'f rng" where
  "same_ratio_preprocess F G g1_points polynomial_degree rng =
     (let (challenge, rng') = random_element rng;
          (scalar_multiplier, accumulator) =
             same_ratio_preprocess_loop F G g1_points (unat (polynomial_degree - 1)) 1
               challenge (zero G);
          scalar_multiplier' = sqr F scalar_multiplier
      in (\<lparr>lhs = add G accumulator (mul G (g1_points 0) challenge),
           rhs = add G accumulator
                   (mul G (g1_points (unat (polynomial_degree - 1))) scalar_multiplier')\<rparr>,
          rng'))"

definition same_ratio ::
  "('g, 'p, 'k, 't) ppT \<Rightarrow> 'g VerificationKey \<Rightarrow> 'g VerificationKey \<Rightarrow> bool" where
  "same_ratio pp g1_key g2_key =
     (let g1_lhs = precompute_G1 pp (lhs g1_key);
          g1_rhs = precompute_G1 pp (rhs g1_key);
          g2_lhs = precompute_G2 pp (lhs g2_key);
          g2_rhs = precompute_G2 pp (rhs g2_key);
          miller_result = double_miller_loop pp g1_lhs g2_lhs g1_rhs g1_rhs;
          result = final_exponentiation pp miller_result
      in result = GT_one pp)"

text \<open>
  The comparator-side key of \<^verbatim>\<open>validate_polynomial_evaluation\<close>:
  \<^verbatim>\<open>delta.lhs = comparator; delta.rhs = Group1T::one();\<close>
\<close>

definition validate_polynomial_evaluation_delta ::
  "('f, 'g) GroupT \<Rightarrow> 'g \<Rightarrow> 'g VerificationKey" where
  "validate_polynomial_evaluation_delta Group1T comparator =
     \<lparr>lhs = comparator, rhs = one Group1T\<rparr>"

text \<open>
  \<^verbatim>\<open>validate_polynomial_evaluation\<close>. The body names \<^verbatim>\<open>GroupT\<close> and
  \<^verbatim>\<open>polynomial_degree\<close>, which it does not declare; they are read as \<^verbatim>\<open>Group1T\<close>, the
  type of \<^verbatim>\<open>evaluation\<close> and of \<^verbatim>\<open>key\<close>, and as the parameter \<^verbatim>\<open>polymomial_degree\<close>.
\<close>

definition validate_polynomial_evaluation ::
  "('g, 'p, 'k, 't) ppT \<Rightarrow> 'f FieldT \<Rightarrow> ('f, 'g) GroupT \<Rightarrow> ('f, 'g) GroupT
     \<Rightarrow> (nat \<Rightarrow> 'g) \<Rightarrow> 'g \<Rightarrow> size_t \<Rightarrow> 'f rng \<Rightarrow> bool \<times> 'f rng" where
  "validate_polynomial_evaluation pp F Group1T Group2T evaluation comparator
       polynomial_degree rng =
     (let delta = validate_polynomial_evaluation_delta Group1T comparator;
          (key, rng') = same_ratio_preprocess F Group1T evaluation polynomial_degree rng;
          wibble = (sizeof Group2T > sizeof Group1T)
      in if wibble then (same_ratio pp key delta, rng')
         else (same_ratio pp delta key, rng'))"

text \<open>
  The key builder and the power-sequence check on a sequence of known length. The source
  reads through a bare pointer and never learns how many elements lie behind it; a read
  at an index past the last element is undefined behaviour in C++, and here it is the
  fault \<open>OutOfRange\<close>, after which nothing more runs and no key or boolean is returned.
  The reads are made in the order of the source: \<^verbatim>\<open>g1_points[i]\<close> in the loop, then
  \<^verbatim>\<open>g1_points[polynomial_degree - 1]\<close> for \<^verbatim>\<open>key.rhs\<close>, then \<^verbatim>\<open>g1_points[0]\<close> for
  \<^verbatim>\<open>key.lhs\<close>. The challenge is drawn before the first read, so the randomness source
  has lost its draw also when a fault follows.
\<close>

datatype fault = OutOfRange

definition at :: "'g list \<Rightarrow> nat \<Rightarrow> fault + 'g" where
  "at g1_points i = (if i < length g1_points then Inr (g1_points ! i) else Inl OutOfRange)"

function same_ratio_preprocess_loop_bounded ::
  "'f FieldT \<Rightarrow> ('f, 'g) GroupT \<Rightarrow> 'g list \<Rightarrow> nat \<Rightarrow> nat \<Rightarrow> 'f \<Rightarrow> 'g \<Rightarrow> fault + 'f \<times> 'g" where
  "same_ratio_preprocess_loop_bounded F G g1_points bound i scalar_multiplier accumulator =
     (if i < bound then
        (let scalar_multiplier' = sqr F scalar_multiplier
         in case at g1_points i of
              Inl fault \<Rightarrow> Inl fault
            | Inr point \<Rightarrow>
                (let accumulator' = add G accumulator (mul G point scalar_multiplier')
                 in same_ratio_preprocess_loop_bounded F G g1_points bound (Suc i)
                      scalar_multiplier' accumulator'))
      else Inr (scalar_multiplier, accumulator))"
  by pat_completeness auto
termination
  by (relation "measure (\<lambda>(F, G, g1_points, bound, i, m, a). bound - i)") auto

declare same_ratio_preprocess_loop_bounded.simps [simp del]

definition same_ratio_preprocess_bounded ::
  "'f FieldT \<Rightarrow> ('f, 'g) GroupT \<Rightarrow> 'g list \<Rightarrow> size_t \<Rightarrow> 'f rng
     \<Rightarrow> (fault + 'g VerificationKey) \<times> 'f rng" where
  "same_ratio_preprocess_bounded F G g1_points polynomial_degree rng =
     (let (challenge, rng') = random_element rng
      in case same_ratio_preprocess_loop_bounded F G g1_points
                (unat (polynomial_degree - 1)) 1 challenge (zero G) of
           Inl fault \<Rightarrow> (Inl fault, rng')
         | Inr (scalar_multiplier, accumulator) \<Rightarrow>
             (let scalar_multiplier' = sqr F scalar_multiplier
              in case at g1_points (unat (polynomial_degree - 1)) of
                   Inl fault \<Rightarrow> (Inl fault, rng')
                 | Inr last_point \<Rightarrow>
                     (case at g1_points 0 of
                        Inl fault \<Rightarrow> (Inl fault, rng')
                      | Inr first_point \<Rightarrow>
                          (Inr \<lparr>lhs = add G accumulator (mul G first_point challenge),
                                rhs = add G accumulator
                                        (mul G last_point scalar_multiplier')\<rparr>,
                           rng'))))"

definition validate_polynomial_evaluation_bounded ::
  "('g, 'p, 'k, 't) ppT \<Rightarrow> 'f FieldT \<Rightarrow> ('f, 'g) GroupT \<Rightarrow> ('f, 'g) GroupT
     \<Rightarrow> 'g list \<Rightarrow> 'g \<Rightarrow> size_t \<Rightarrow> 'f rng \<Rightarrow> (fault + bool) \<times> 'f rng" where
  "validate_polynomial_evaluation_bounded pp F Group1T Group2T evaluation comparator
       polynomial_degree rng =
     (let delta = validate_polynomial_evaluation_delta Group1T comparator
      in case same_ratio_preprocess_bounded F Group1T evaluation polynomial_degree rng of
           (Inl fault, rng') \<Rightarrow> (Inl fault, rng')
         | (Inr key, rng') \<Rightarrow>
             (let wibble = (sizeof Group2T > sizeof Group1T)
              in if wibble then (Inr (same_ratio pp key delta), rng')
                 else (Inr (same_ratio pp delta key), rng')))"

text \<open>The fifth check of \<^verbatim>\<open>validate_transcript\<close>: the two keys and the call.\<close>

definition g1_alpha_key :: "(nat \<Rightarrow> 'g) \<Rightarrow> (nat \<Rightarrow> 'g) \<Rightarrow> 'g VerificationKey" where
  "g1_alpha_key g1_x g1_alpha_x = \<lparr>lhs = g1_x 0, rhs = g1_alpha_x 0\<rparr>"

definition g2_alpha_key :: "(nat \<Rightarrow> 'g) \<Rightarrow> (nat \<Rightarrow> 'g) \<Rightarrow> 'g VerificationKey" where
  "g2_alpha_key g2_x g2_alpha_x = \<lparr>lhs = g2_alpha_x 0, rhs = g2_x 0\<rparr>"

definition validate_transcript ::
  "('g, 'p, 'k, 't) ppT \<Rightarrow> 'f FieldT \<Rightarrow> ('f, 'g) GroupT \<Rightarrow> ('f, 'g) GroupT
     \<Rightarrow> (nat \<Rightarrow> 'g) \<Rightarrow> (nat \<Rightarrow> 'g) \<Rightarrow> (nat \<Rightarrow> 'g) \<Rightarrow> (nat \<Rightarrow> 'g) \<Rightarrow> size_t \<Rightarrow> 'f rng
     \<Rightarrow> bool \<times> 'f rng" where
  "validate_transcript pp F Group1T Group2T g1_x g1_alpha_x g2_x g2_alpha_x
       polynomial_degree rng0 =
     (let result0 = True;
          (c1, rng1) = validate_polynomial_evaluation pp F Group1T Group2T
                         g1_x (g2_x 0) polynomial_degree rng0;
          result1 = (result0 \<and> c1);
          (c2, rng2) = validate_polynomial_evaluation pp F Group1T Group2T
                         g1_alpha_x (g2_x 0) polynomial_degree rng1;
          result2 = (result1 \<and> c2);
          (c3, rng3) = validate_polynomial_evaluation pp F Group2T Group1T
                         g2_x (g1_x 0) polynomial_degree rng2;
          result3 = (result2 \<and> c3);
          (c4, rng4) = validate_polynomial_evaluation pp F Group2T Group1T
                         g2_alpha_x (g1_x 0) polynomial_degree rng3;
          result4 = (result3 \<and> c4);
          c5 = same_ratio pp (g1_alpha_key g1_x g1_alpha_x) (g2_alpha_key g2_x g2_alpha_x);
          result5 = (result4 \<and> c5)
      in (result5, rng4))"

section \<open>range-prep/main.cpp\<close>

text \<open>
  A file written by the tool is a run of fixed-size records, back to back without a
  header: the list of the elements written. A file system maps a path to its content.
\<close>

datatype ('f, 'g) dump = Fr_records "'f list" | G1_records "'g list"

type_synonym ('f, 'g) files = "string \<Rightarrow> ('f, 'g) dump option"

text \<open>
  The two loaders of \<^verbatim>\<open>aztec_common/streaming_transcript.hpp\<close> are not among the
  sources, so \<^verbatim>\<open>transform\<close> takes them as a parameter. A loader gets the vector it
  fills by reference and returns it filled, or throws a \<^verbatim>\<open>char const *\<close> (the only
  exception that \<^verbatim>\<open>main\<close> catches), which is \<open>Inl\<close>.
\<close>

record ('f, 'g, 'm) streaming =
  read_field_elements_from_file ::
    "('f, 'g) files \<Rightarrow> 'f list \<Rightarrow> string \<Rightarrow> size_t \<Rightarrow> string + 'f list"
  read_transcript ::
    "('f, 'g) files \<Rightarrow> 'g list \<Rightarrow> 'g list \<Rightarrow> string \<Rightarrow> string + ('g list \<times> 'g list \<times> 'm)"

text \<open>
  \<^verbatim>\<open>transform\<close>. \<^verbatim>\<open>std::vector<G1> g1_x(polynomial_degree)\<close> holds
  \<^verbatim>\<open>polynomial_degree\<close> default-constructed elements, taken to be \<^verbatim>\<open>zero()\<close> (they
  only go to the loader, which overwrites them), \<^verbatim>\<open>insert(begin(), x)\<close> puts
  \<open>x\<close> in front, and \<^verbatim>\<open>file.write(&v[0], v.size() * sizeof(T))\<close> on a fresh
  \<^verbatim>\<open>std::ofstream\<close> makes the file the \<^verbatim>\<open>v.size()\<close> records of \<open>v\<close>. The messages
  on \<^verbatim>\<open>std::cout\<close> and the timer are left out.
\<close>

definition transform ::
  "('f, 'g, 'm) streaming \<Rightarrow> ('f, 'g) GroupT \<Rightarrow> ('f, 'g) GroupT \<Rightarrow> ('f, 'g) files \<Rightarrow> size_t
     \<Rightarrow> string + ('f, 'g) files" where
  "transform S G1 G2 fs polynomial_degree =
     (let generator_polynomial = [];
          g1_x = replicate (unat polynomial_degree) (zero G1);
          g2_x = replicate (unat polynomial_degree) (zero G2)
      in case read_field_elements_from_file S fs generator_polynomial
                ''../setup_db/generator.dat'' (polynomial_degree + 1) of
           Inl err \<Rightarrow> Inl err
         | Inr generator_polynomial' \<Rightarrow>
             (case read_transcript S fs g1_x g2_x ''../setup_db/transcript.dat'' of
                Inl err \<Rightarrow> Inl err
              | Inr (g1_x', g2_x', manifest) \<Rightarrow>
                  (let g1_x'' = one G1 # g1_x';
                       fs' = fs(''../setup_db/generator_prep.dat'' \<mapsto>
                                  Fr_records generator_polynomial');
                       fs'' = fs'(''../setup_db/g1_x_prep.dat'' \<mapsto> G1_records g1_x'')
                   in Inr fs'')))"

section \<open>A pairing engine to run the code on\<close>

text \<open>
  Modelled from the spec: the Pairing Engine (the pairing library behind \<^verbatim>\<open>ppT\<close>,
  \<^verbatim>\<open>FieldT\<close> and the two group types) is an external dependency and not among the
  sources. Section 2 of the specification gives what it provides: "two source groups,
  scalar field arithmetic, group scalar-multiplication/addition, an asymmetric bilinear
  pairing into a target group", the glossary gives the law \<open>e(aP, bQ) = e(P, Q)^(ab)\<close>, and
  section 4.2 says that the combined double pairing computation evaluates the pairing
  twice and that the combined result is compared with the target group's identity.

  The engine below is the smallest one of that shape, of prime order 7. An element of
  a source group is written as its discrete logarithm to the base of the group's
  generator \<^verbatim>\<open>one()\<close>, a number below 7: \<^verbatim>\<open>zero()\<close> is 0, \<^verbatim>\<open>one()\<close> is 1, the sum
  adds and the scalar multiple multiplies modulo 7. An element of the target group is
  written as its exponent to the base \<open>e(one, one)\<close>: the pairing of \<open>a\<close> and \<open>b\<close> is
  \<open>a * b\<close>, the product of two pairing values adds the exponents, and the identity
  \<^verbatim>\<open>GT::one()\<close> is the exponent 0. Precomputation and the final exponentiation change
  no value, and a point of one source group in the place of a point of the other is
  read as the point with the same discrete logarithm. The sizes are those of the two
  point types of a 254-bit curve: three coordinates of 32 bytes, and three of 64 bytes.
\<close>

definition Z7_Fr :: "nat FieldT" where
  "Z7_Fr = \<lparr>f_one = 1, f_mul = (\<lambda>a b. a * b mod 7), sqr = (\<lambda>a. a * a mod 7)\<rparr>"

definition Z7_G1 :: "(nat, nat) GroupT" where
  "Z7_G1 = \<lparr>zero = 0, one = 1, add = (\<lambda>a b. (a + b) mod 7), mul = (\<lambda>a z. a * z mod 7),
            sizeof = 96\<rparr>"

definition Z7_G2 :: "(nat, nat) GroupT" where
  "Z7_G2 = \<lparr>zero = 0, one = 1, add = (\<lambda>a b. (a + b) mod 7), mul = (\<lambda>a z. a * z mod 7),
            sizeof = 192\<rparr>"

definition Z7_pp :: "(nat, nat, nat, nat) ppT" where
  "Z7_pp = \<lparr>precompute_G1 = (\<lambda>P. P), precompute_G2 = (\<lambda>Q. Q),
            miller_loop = (\<lambda>P Q. P * Q mod 7),
            double_miller_loop = (\<lambda>P1 Q1 P2 Q2. (P1 * Q1 + P2 * Q2) mod 7),
            final_exponentiation = (\<lambda>x. x), GT_one = 0\<rparr>"

text \<open>
  The honest power sequence of the specification: \<open>seq[i] = s^(i+1) * G\<close> for the
  generator \<open>G = one()\<close> of the group.
\<close>

definition power_sequence :: "'f FieldT \<Rightarrow> ('f, 'g) GroupT \<Rightarrow> 'f \<Rightarrow> nat \<Rightarrow> 'g" where
  "power_sequence F G s i = mul G (one G) (f_pow F s (Suc i))"

text \<open>
  Modelled from the spec: the loaders of \<^verbatim>\<open>aztec_common/streaming_transcript.hpp\<close>,
  which are not among the sources. Section 6 of the specification: the
  generator-polynomial loader "supplies \<open>degree+1\<close> scalar field elements", the
  transcript loader "supplies, given a target length, an ordered sequence" of group
  elements. Each returns the first records of the file it is asked for, as many as asked
  for or as the vector it fills holds, and throws when the file is absent or shorter.
\<close>

definition Z7_streaming :: "(nat, nat, unit) streaming" where
  "Z7_streaming =
     \<lparr>read_field_elements_from_file = (\<lambda>fs v path n.
        case fs path of
          Some (Fr_records xs) \<Rightarrow>
            if unat n \<le> length xs then Inr (take (unat n) xs) else Inl ''too short''
        | _ \<Rightarrow> Inl ''no file''),
      read_transcript = (\<lambda>fs g1_x g2_x path.
        case fs path of
          Some (G1_records xs) \<Rightarrow>
            if length g1_x \<le> length xs then Inr (take (length g1_x) xs, g2_x, ())
            else Inl ''too short''
        | _ \<Rightarrow> Inl ''no file'')\<rparr>"

section \<open>The engine of order 7 is a pairing engine\<close>

lemmas Z7_defs = Z7_Fr_def Z7_G1_def Z7_G2_def Z7_pp_def

text \<open>
  \<^verbatim>\<open>zero()\<close> is the identity of the sum, the pairing is bilinear and does not send the
  two generators to the identity, the double Miller loop gives the product of the two
  pairing values, and \<^verbatim>\<open>sqr\<close> is the product of a scalar with itself.
\<close>

lemma Z7_add_zero:
  "add Z7_G1 (zero Z7_G1) P = P mod 7 \<and> add Z7_G2 (zero Z7_G2) Q = Q mod 7"
  by (simp add: Z7_G1_def Z7_G2_def)

lemma Z7_pairing_bilinear:
  "reduced_pairing Z7_pp (mul Z7_G1 P a) (mul Z7_G2 Q b) =
     (reduced_pairing Z7_pp P Q * (a * b)) mod 7"
proof -
  have "(P * a mod 7) * (Q * b mod 7) mod 7 = (P * a) * (Q * b) mod 7"
    by (rule mod_mult_eq)
  also have "\<dots> = (P * Q) * (a * b) mod 7"
    by (simp add: mult_ac)
  also have "\<dots> = (P * Q mod 7) * (a * b) mod 7"
    by (rule mod_mult_left_eq [symmetric])
  finally show ?thesis
    by (simp add: reduced_pairing_def Z7_defs)
qed

lemma Z7_pairing_nondegenerate:
  "reduced_pairing Z7_pp (one Z7_G1) (one Z7_G2) \<noteq> GT_one Z7_pp"
  by (simp add: reduced_pairing_def Z7_defs)

lemma Z7_double_miller_loop:
  "final_exponentiation Z7_pp (double_miller_loop Z7_pp P1 Q1 P2 Q2) =
     (reduced_pairing Z7_pp P1 Q1 + reduced_pairing Z7_pp P2 Q2) mod 7"
  by (simp add: reduced_pairing_def Z7_pp_def mod_add_eq)

lemma Z7_sqr: "sqr Z7_Fr z = f_mul Z7_Fr z z"
  by (simp add: Z7_Fr_def)

section \<open>The loop and the randomness source\<close>

lemma same_ratio_preprocess_loop_step:
  "i < bound \<Longrightarrow>
     same_ratio_preprocess_loop F G g1_points bound i m a =
       same_ratio_preprocess_loop F G g1_points bound (Suc i) (sqr F m)
         (add G a (mul G (g1_points i) (sqr F m)))"
  by (subst same_ratio_preprocess_loop.simps) (simp add: Let_def)

lemma same_ratio_preprocess_loop_exit:
  "\<not> i < bound \<Longrightarrow> same_ratio_preprocess_loop F G g1_points bound i m a = (m, a)"
  by (subst same_ratio_preprocess_loop.simps) simp

text \<open>
  Each round of the loop squares the running multiplier: after the rounds from \<open>i\<close> up to
  the bound it is the starting value squared \<open>bound - i\<close> times, whatever the points are.
\<close>

lemma same_ratio_preprocess_loop_multiplier:
  "fst (same_ratio_preprocess_loop F G g1_points bound i m a) = (sqr F ^^ (bound - i)) m"
proof (induction F G g1_points bound i m a rule: same_ratio_preprocess_loop.induct)
  case (1 F G g1_points bound i m a)
  show ?case
  proof (cases "i < bound")
    case True
    then have "bound - i = Suc (bound - Suc i)"
      by simp
    with True 1 show ?thesis
      by (simp add: same_ratio_preprocess_loop_step funpow_swap1)
  next
    case False
    then show ?thesis
      by (simp add: same_ratio_preprocess_loop_exit)
  qed
qed

lemma same_ratio_preprocess_draws_once:
  "snd (same_ratio_preprocess F G g1_points polynomial_degree rng) = rest rng"
  by (simp add: same_ratio_preprocess_def random_element_def case_prod_beta Let_def)

lemma validate_polynomial_evaluation_draws_once:
  "snd (validate_polynomial_evaluation pp F Group1T Group2T evaluation comparator
          polynomial_degree rng) = rest rng"
  by (simp add: validate_polynomial_evaluation_def case_prod_beta Let_def
        same_ratio_preprocess_draws_once)

section \<open>Sequences of known length\<close>

lemma same_ratio_preprocess_loop_bounded_step:
  "i < bound \<Longrightarrow> i < length g1_points \<Longrightarrow>
     same_ratio_preprocess_loop_bounded F G g1_points bound i m a =
       same_ratio_preprocess_loop_bounded F G g1_points bound (Suc i) (sqr F m)
         (add G a (mul G (g1_points ! i) (sqr F m)))"
  by (subst same_ratio_preprocess_loop_bounded.simps) (simp add: Let_def at_def)

lemma same_ratio_preprocess_loop_bounded_fault:
  "i < bound \<Longrightarrow> \<not> i < length g1_points \<Longrightarrow>
     same_ratio_preprocess_loop_bounded F G g1_points bound i m a = Inl OutOfRange"
  by (subst same_ratio_preprocess_loop_bounded.simps) (simp add: Let_def at_def)

lemma same_ratio_preprocess_loop_bounded_exit:
  "\<not> i < bound \<Longrightarrow>
     same_ratio_preprocess_loop_bounded F G g1_points bound i m a = Inr (m, a)"
  by (subst same_ratio_preprocess_loop_bounded.simps) simp

text \<open>
  A loop whose bound lies beyond the sequence, entered at all, runs off its end: every
  round either reads in range and goes on, or reads out of range.
\<close>

lemma same_ratio_preprocess_loop_bounded_runs_off:
  "length g1_points < bound \<Longrightarrow> i < bound \<Longrightarrow>
     same_ratio_preprocess_loop_bounded F G g1_points bound i m a = Inl OutOfRange"
proof (induction F G g1_points bound i m a rule: same_ratio_preprocess_loop_bounded.induct)
  case (1 F G g1_points bound i m a)
  show ?case
  proof (cases "i < length g1_points")
    case True
    with "1.prems" have "Suc i < bound"
      by simp
    with True 1 show ?thesis
      by (simp add: same_ratio_preprocess_loop_bounded_step at_def)
  next
    case False
    with "1.prems" show ?thesis
      by (simp add: same_ratio_preprocess_loop_bounded_fault)
  qed
qed

text \<open>
  Where every read is in range, which is so for \<open>1 \<le> degree \<le> length\<close>, the functions on
  a sequence of known length return what the functions on the memory behind the pointer
  return.
\<close>

lemma same_ratio_preprocess_loop_bounded_in_range:
  "bound \<le> length g1_points \<Longrightarrow>
     same_ratio_preprocess_loop_bounded F G g1_points bound i m a =
       Inr (same_ratio_preprocess_loop F G (\<lambda>i. g1_points ! i) bound i m a)"
proof (induction F G g1_points bound i m a rule: same_ratio_preprocess_loop_bounded.induct)
  case (1 F G g1_points bound i m a)
  show ?case
  proof (cases "i < bound")
    case True
    with "1.prems" have "i < length g1_points"
      by simp
    with True 1 show ?thesis
      by (simp add: same_ratio_preprocess_loop_bounded_step same_ratio_preprocess_loop_step
            at_def)
  next
    case False
    then show ?thesis
      by (simp add: same_ratio_preprocess_loop_bounded_exit same_ratio_preprocess_loop_exit)
  qed
qed

lemma same_ratio_preprocess_bounded_in_range:
  assumes "1 \<le> unat polynomial_degree" and "unat polynomial_degree \<le> length g1_points"
  shows "same_ratio_preprocess_bounded F G g1_points polynomial_degree rng =
           (Inr (fst (same_ratio_preprocess F G (\<lambda>i. g1_points ! i) polynomial_degree rng)),
            rest rng)"
proof -
  from assms(1) have "unat (polynomial_degree - 1) = unat polynomial_degree - 1"
    by (simp add: unat_sub word_le_nat_alt)
  with assms have last: "unat (polynomial_degree - 1) < length g1_points"
    and first: "g1_points \<noteq> []"
    by auto
  then have le: "unat (polynomial_degree - 1) \<le> length g1_points"
    by simp
  from last first show ?thesis
    by (simp add: same_ratio_preprocess_bounded_def same_ratio_preprocess_def
          same_ratio_preprocess_loop_bounded_in_range [OF le] random_element_def at_def
          case_prod_beta Let_def)
qed

lemma validate_polynomial_evaluation_bounded_in_range:
  assumes "1 \<le> unat polynomial_degree" and "unat polynomial_degree \<le> length evaluation"
  shows "validate_polynomial_evaluation_bounded pp F Group1T Group2T evaluation comparator
           polynomial_degree rng =
           (Inr (fst (validate_polynomial_evaluation pp F Group1T Group2T
                        (\<lambda>i. evaluation ! i) comparator polynomial_degree rng)),
            rest rng)"
  by (simp add: validate_polynomial_evaluation_bounded_def validate_polynomial_evaluation_def
        same_ratio_preprocess_bounded_in_range [OF assms] case_prod_beta Let_def)

section \<open>The power-sequence check\<close>

text \<open>
  C1 (completeness of the power-sequence check). The statement is that
  \<^verbatim>\<open>validate_polynomial_evaluation\<close> accepts every honest sequence
  \<open>seq[i] = s^(i+1) * G_A\<close> with the comparator \<open>s * G_B\<close>, for every challenge. The code
  does not: on the engine of order 7, for \<open>s = 2\<close>, degree 2 and the challenge 1, the
  sequence is \<open>[2, 4]\<close> and the comparator 2. The key built is \<open>lhs = 2\<close>, \<open>rhs = 4\<close>,
  which does satisfy the relation of the comments, \<open>A * x = B\<close>: the pairing of \<open>lhs\<close>
  with the comparator equals the pairing of \<open>rhs\<close> with the generator. The check
  computes \<open>2 * 2 + 4 * 4 = 20\<close>, which is 6 modulo 7 and not the identity 0, and
  returns false.
\<close>

theorem validate_polynomial_evaluation_rejects_honest_sequence:
  "fst (same_ratio_preprocess Z7_Fr Z7_G1 (power_sequence Z7_Fr Z7_G1 2) 2 (\<lambda>n. 1))
     = \<lparr>lhs = 2, rhs = 4\<rparr> \<and>
   reduced_pairing Z7_pp 2 (mul Z7_G2 (one Z7_G2) 2)
     = reduced_pairing Z7_pp 4 (one Z7_G2) \<and>
   fst (validate_polynomial_evaluation Z7_pp Z7_Fr Z7_G1 Z7_G2
          (power_sequence Z7_Fr Z7_G1 2) (mul Z7_G2 (one Z7_G2) 2) 2 (\<lambda>n. 1)) = False"
  by (simp add: validate_polynomial_evaluation_def validate_polynomial_evaluation_delta_def
        same_ratio_preprocess_def random_element_def same_ratio_def power_sequence_def
        reduced_pairing_def same_ratio_preprocess_loop_exit Z7_defs Let_def)

section \<open>The ratio check\<close>

text \<open>
  C2 (\<^verbatim>\<open>same_ratio\<close> decides the equality of the two pairings). The statement is that
  \<^verbatim>\<open>same_ratio\<close> returns true exactly when the pairing of the two \<open>lhs\<close> equals the
  pairing of the two \<open>rhs\<close>. The code passes \<^verbatim>\<open>g1_rhs\<close> twice to the double Miller
  loop and compares the product of the two pairing values with the identity. Both
  directions fail on the engine of order 7: for the keys \<open>(3, 2)\<close> and \<open>(2, 3)\<close> the two
  pairings are equal and \<^verbatim>\<open>same_ratio\<close> returns false (\<open>3 * 2 + 2 * 2 = 10\<close>, 3 modulo
  7); for the keys \<open>(1, 1)\<close> and \<open>(6, 5)\<close> the two pairings differ and \<^verbatim>\<open>same_ratio\<close>
  returns true (\<open>1 * 6 + 1 * 1 = 7\<close>, 0 modulo 7).
\<close>

theorem same_ratio_differs_from_pairing_equality:
  "reduced_pairing Z7_pp 3 2 = reduced_pairing Z7_pp 2 3 \<and>
   same_ratio Z7_pp \<lparr>lhs = 3, rhs = 2\<rparr> \<lparr>lhs = 2, rhs = 3\<rparr> = False \<and>
   reduced_pairing Z7_pp 1 6 \<noteq> reduced_pairing Z7_pp 1 5 \<and>
   same_ratio Z7_pp \<lparr>lhs = 1, rhs = 1\<rparr> \<lparr>lhs = 6, rhs = 5\<rparr> = True"
  by (simp add: same_ratio_def reduced_pairing_def Z7_pp_def Let_def)

text \<open>
  C10 (the result of \<^verbatim>\<open>same_ratio\<close> does not depend on \<^verbatim>\<open>g2_key.rhs\<close>). For every
  engine, every pair of keys and every other value \<open>r\<close> of \<^verbatim>\<open>g2_key.rhs\<close>, the result
  is the same: \<^verbatim>\<open>g2_rhs\<close> is computed and never passed on. \<^verbatim>\<open>same_ratio\<close> draws no
  randomness.
\<close>

theorem same_ratio_ignores_g2_rhs:
  "same_ratio pp g1_key (g2_key\<lparr>rhs := r\<rparr>) = same_ratio pp g1_key g2_key"
  by (simp add: same_ratio_def Let_def)

section \<open>The key builder\<close>

text \<open>
  C3 (the running multiplier takes the values \<open>z, z^2, z^3, \<dots>\<close>). The statement is that
  the multiplier folded with \<open>seq[i]\<close> in round \<open>i\<close> is \<open>z^(i+1)\<close>. The code squares the
  multiplier in every round (\<open>same_ratio_preprocess_loop_multiplier\<close>), so the values are
  \<open>z, z^2, z^4, z^8, \<dots>\<close>. On the scalars modulo 7, at degree 4 and \<open>z = 3\<close>, the loop runs
  the rounds 1 and 2 and leaves the multiplier of round 2: it is \<open>3^4 = 81\<close>, 4 modulo 7,
  where \<open>z^(2+1) = 27\<close> is 6 modulo 7.
\<close>

theorem same_ratio_preprocess_loop_squares:
  "fst (same_ratio_preprocess_loop Z7_Fr Z7_G1 g1_points (unat (4 - 1 :: size_t)) 1 3
          (zero Z7_G1)) = 4 \<and>
   f_pow Z7_Fr 3 (2 + 1) = 6"
  by code_simp

text \<open>
  C4 (for an honest power sequence the built key has \<open>rhs = s * lhs\<close>). The code adds one
  accumulator to both sides and squares the multiplier, so the relation fails already at
  degree 2, where the loop body never runs: on the engine of order 7, for \<open>s = 2\<close> and the
  challenge 2, the sequence is \<open>[2, 4]\<close> and the key is \<open>lhs = 2 * 2 = 4\<close>,
  \<open>rhs = 4 * 4 = 16\<close>, 2 modulo 7, where \<open>s * lhs = 8\<close> is 1 modulo 7.
\<close>

theorem same_ratio_preprocess_breaks_relation:
  "fst (same_ratio_preprocess Z7_Fr Z7_G1 (power_sequence Z7_Fr Z7_G1 2) 2 (\<lambda>n. 2))
     = \<lparr>lhs = 4, rhs = 2\<rparr> \<and>
   mul Z7_G1 4 2 = 1"
  by (simp add: same_ratio_preprocess_def random_element_def power_sequence_def
        same_ratio_preprocess_loop_exit Z7_Fr_def Z7_G1_def Let_def)

text \<open>
  C7 (the comparator-side key is \<open>lhs = comparator\<close>, \<open>rhs\<close> = the identity of the
  comparator's group). The code sets \<^verbatim>\<open>delta.rhs = Group1T::one()\<close>. In a group written
  with \<^verbatim>\<open>zero()\<close> and \<open>+\<close>, as \<^verbatim>\<open>same_ratio_preprocess\<close> writes it, the identity
  is \<^verbatim>\<open>zero()\<close>; \<^verbatim>\<open>one()\<close> is the generator. On the engine of order 7, with the
  comparator \<open>2 * G_B\<close> and the sequence in the first group, \<open>rhs\<close> is 1 and not the
  identity 0 of the comparator's group: adding it to 2 gives 3.
\<close>

theorem delta_rhs_is_not_the_identity:
  "\<not> (lhs (validate_polynomial_evaluation_delta Z7_G1 2) = 2 \<and>
      rhs (validate_polynomial_evaluation_delta Z7_G1 2) = zero Z7_G2) \<and>
   add Z7_G2 (rhs (validate_polynomial_evaluation_delta Z7_G1 2)) 2 = 3"
  by (simp add: validate_polynomial_evaluation_delta_def Z7_G1_def Z7_G2_def)

text \<open>
  C7 as amended: for every comparator and every input,
  \<^verbatim>\<open>validate_polynomial_evaluation\<close> builds its comparator-side key with \<open>lhs\<close> equal to
  the comparator and \<open>rhs\<close> equal to the \<^verbatim>\<open>one()\<close> element, the generator, of a source
  group, and that key is the one it hands to \<^verbatim>\<open>same_ratio\<close> next to the key built from
  the sequence. Which of the two groups the generator is taken from is left open here.
\<close>

theorem delta_is_comparator_and_generator:
  "lhs (validate_polynomial_evaluation_delta Group1T comparator) = comparator \<and>
   rhs (validate_polynomial_evaluation_delta Group1T comparator)
     \<in> {one Group1T, one Group2T} \<and>
   fst (validate_polynomial_evaluation pp F Group1T Group2T evaluation comparator
          polynomial_degree rng) =
     (if sizeof Group2T > sizeof Group1T
      then same_ratio pp
             (fst (same_ratio_preprocess F Group1T evaluation polynomial_degree rng))
             (validate_polynomial_evaluation_delta Group1T comparator)
      else same_ratio pp
             (validate_polynomial_evaluation_delta Group1T comparator)
             (fst (same_ratio_preprocess F Group1T evaluation polynomial_degree rng)))"
  by (simp add: validate_polynomial_evaluation_def validate_polynomial_evaluation_delta_def
        case_prod_beta Let_def)

text \<open>
  C8 (degree 0 and degree 1 are rejected with a distinguishable error before anything
  runs). The code has no guard and no error result. On the engine of order 7, at degree
  1 with the one-element sequence \<open>[G_A]\<close>, the comparator \<open>6 * G_B\<close> and the challenge 1,
  \<^verbatim>\<open>validate_polynomial_evaluation\<close> draws the challenge and returns true
  (\<open>1 * 6 + 1 * 1 = 7\<close>, 0 modulo 7).
\<close>

theorem degree_one_is_accepted:
  "validate_polynomial_evaluation Z7_pp Z7_Fr Z7_G1 Z7_G2 (\<lambda>i. 1) 6 1 (\<lambda>n. 1)
     = (True, rest (\<lambda>n. 1))"
  by (simp add: validate_polynomial_evaluation_def validate_polynomial_evaluation_delta_def
        same_ratio_preprocess_def random_element_def same_ratio_def
        same_ratio_preprocess_loop_exit Z7_defs Let_def)

text \<open>
  C8 as amended: for degree 0 and degree 1 the verifier applies no degree guard and
  raises no error of its own; it draws its one challenge first, as for every degree. At
  degree 1, on a sequence with an element, the loop body does not run and the verifier
  returns the ordinary boolean of the ratio check on the key \<open>lhs = zero + seq[0] * z\<close>,
  \<open>rhs = zero + seq[0] * z^2\<close>, so a degree-1 input can be accepted. At degree 0
  \<^verbatim>\<open>polynomial_degree - 1\<close> wraps to \<open>2^64 - 1\<close>, and after the draw the loop reads any
  sequence of fewer than \<open>2^64 - 1\<close> elements past its end: that is undefined behaviour,
  and no boolean is returned.
\<close>

theorem degenerate_degree_is_not_guarded:
  assumes "length evaluation < 2 ^ 64 - 1"
  shows "validate_polynomial_evaluation_bounded pp F Group1T Group2T evaluation
           comparator 0 rng
           = (Inl OutOfRange, rest rng) \<and>
         validate_polynomial_evaluation_bounded pp F Group1T Group2T (x # xs)
           comparator 1 rng
           = (Inr (if sizeof Group2T > sizeof Group1T
                   then same_ratio pp
                          \<lparr>lhs = add Group1T (zero Group1T) (mul Group1T x (rng 0)),
                           rhs = add Group1T (zero Group1T)
                                   (mul Group1T x (sqr F (rng 0)))\<rparr>
                          (validate_polynomial_evaluation_delta Group1T comparator)
                   else same_ratio pp
                          (validate_polynomial_evaluation_delta Group1T comparator)
                          \<lparr>lhs = add Group1T (zero Group1T) (mul Group1T x (rng 0)),
                           rhs = add Group1T (zero Group1T)
                                   (mul Group1T x (sqr F (rng 0)))\<rparr>),
              rest rng)"
proof -
  have wrap: "unat (- 1 :: size_t) = 2 ^ 64 - 1"
    by (simp add: unsigned_minus_1_eq_mask mask_eq_exp_minus_1)
  with assms have "length evaluation < unat (- 1 :: size_t)" and "1 < unat (- 1 :: size_t)"
    by simp_all
  then have "same_ratio_preprocess_loop_bounded F Group1T evaluation (unat (- 1 :: size_t)) 1
               (rng 0) (zero Group1T) = Inl OutOfRange"
    by (rule same_ratio_preprocess_loop_bounded_runs_off)
  then have degree_0: "same_ratio_preprocess_bounded F Group1T evaluation 0 rng
                         = (Inl OutOfRange, rest rng)"
    by (simp add: same_ratio_preprocess_bounded_def random_element_def)
  have degree_1: "same_ratio_preprocess_bounded F Group1T (x # xs) 1 rng =
                    (Inr \<lparr>lhs = add Group1T (zero Group1T) (mul Group1T x (rng 0)),
                          rhs = add Group1T (zero Group1T)
                                  (mul Group1T x (sqr F (rng 0)))\<rparr>,
                     rest rng)"
    by (simp add: same_ratio_preprocess_bounded_def random_element_def
          same_ratio_preprocess_loop_bounded_exit at_def Let_def)
  show ?thesis
    by (simp add: validate_polynomial_evaluation_bounded_def degree_0 degree_1 Let_def)
qed

text \<open>
  C8 as amended, on the engine of order 7 with the one-element sequence \<open>[G_A]\<close>, the
  comparator \<open>6 * G_B\<close> and the challenge 1: at degree 0 the challenge is drawn and the
  first round of the loop reads \<open>seq[1]\<close>, out of range; at degree 1 the verifier returns
  true.
\<close>

theorem degenerate_degree_is_not_guarded_witness:
  "length [1 :: nat] < 2 ^ 64 - 1 \<and>
   validate_polynomial_evaluation_bounded Z7_pp Z7_Fr Z7_G1 Z7_G2 [1] 6 0 (\<lambda>n. 1)
     = (Inl OutOfRange, rest (\<lambda>n. 1)) \<and>
   validate_polynomial_evaluation_bounded Z7_pp Z7_Fr Z7_G1 Z7_G2 [1] 6 1 (\<lambda>n. 1)
     = (Inr True, rest (\<lambda>n. 1))"
proof -
  have short: "length [1 :: nat] < 2 ^ 64 - 1"
    by simp
  show ?thesis
    using degenerate_degree_is_not_guarded
            [OF short, of Z7_pp Z7_Fr Z7_G1 Z7_G2 6 "\<lambda>n. 1" 1 "[]"]
    by (simp add: validate_polynomial_evaluation_delta_def same_ratio_def Z7_defs Let_def)
qed

section \<open>The transcript validator\<close>

text \<open>
  C5 (\<^verbatim>\<open>validate_transcript\<close> is the conjunction of its five checks, none skipped). For
  every engine, transcript, degree and randomness source, the result is true exactly when
  the four power-sequence checks and the ratio check are all true; each power-sequence
  check runs on the randomness left by the one before it, whatever that one returned,
  and the source that is left has lost four draws.
\<close>

theorem validate_transcript_runs_all_five_checks:
  "validate_transcript pp F Group1T Group2T g1_x g1_alpha_x g2_x g2_alpha_x
       polynomial_degree rng =
     (fst (validate_polynomial_evaluation pp F Group1T Group2T g1_x (g2_x 0)
             polynomial_degree rng) \<and>
      fst (validate_polynomial_evaluation pp F Group1T Group2T g1_alpha_x (g2_x 0)
             polynomial_degree (rest rng)) \<and>
      fst (validate_polynomial_evaluation pp F Group2T Group1T g2_x (g1_x 0)
             polynomial_degree (rest (rest rng))) \<and>
      fst (validate_polynomial_evaluation pp F Group2T Group1T g2_alpha_x (g1_x 0)
             polynomial_degree (rest (rest (rest rng)))) \<and>
      same_ratio pp (g1_alpha_key g1_x g1_alpha_x) (g2_alpha_key g2_x g2_alpha_x),
      rest (rest (rest (rest rng))))"
  by (simp add: validate_transcript_def case_prod_beta Let_def
        validate_polynomial_evaluation_draws_once)

text \<open>
  C6 (the fifth check passes exactly when the pairing of \<open>g_A_x[0]\<close> with
  \<open>g_B_alpha_x[0]\<close> equals the pairing of \<open>g_A_alpha_x[0]\<close> with \<open>g_B_x[0]\<close>). The fifth
  check is \<^verbatim>\<open>same_ratio\<close> on the keys \<open>{g_A_x[0], g_A_alpha_x[0]}\<close> and
  \<open>{g_B_alpha_x[0], g_B_x[0]}\<close>, as stated, but \<^verbatim>\<open>same_ratio\<close> does not decide that
  equality. On the engine of order 7, for \<open>s = 2\<close> and the shift 3, the first elements
  are \<open>g_A_x[0] = g_B_x[0] = 2\<close> and \<open>g_A_alpha_x[0] = g_B_alpha_x[0] = 6\<close>: the two
  pairings are equal, the fifth check returns false (\<open>2 * 6 + 6 * 6 = 48\<close>, 6 modulo 7),
  and so does \<^verbatim>\<open>validate_transcript\<close>, for every degree and randomness.
\<close>

theorem fifth_check_rejects_equal_pairings:
  "g1_alpha_key (\<lambda>i. 2) (\<lambda>i. 6) = \<lparr>lhs = 2, rhs = 6\<rparr> \<and>
   g2_alpha_key (\<lambda>i. 2) (\<lambda>i. 6) = \<lparr>lhs = 6, rhs = 2\<rparr> \<and>
   reduced_pairing Z7_pp 2 6 = reduced_pairing Z7_pp 6 2 \<and>
   same_ratio Z7_pp (g1_alpha_key (\<lambda>i. 2) (\<lambda>i. 6)) (g2_alpha_key (\<lambda>i. 2) (\<lambda>i. 6)) = False \<and>
   fst (validate_transcript Z7_pp Z7_Fr Z7_G1 Z7_G2 (\<lambda>i. 2) (\<lambda>i. 6) (\<lambda>i. 2) (\<lambda>i. 6)
          polynomial_degree rng) = False"
  by (simp add: validate_transcript_def case_prod_beta Let_def same_ratio_def
        g1_alpha_key_def g2_alpha_key_def reduced_pairing_def Z7_pp_def)

section \<open>The preparation tool\<close>

text \<open>
  C9 (the tool writes the first-group dump with the group identity in front, \<open>degree+1\<close>
  records, and \<open>degree+1\<close> scalars). The code puts \<^verbatim>\<open>G1::one()\<close> in front, the generator
  and not the identity \<^verbatim>\<open>zero()\<close>. On the engine of order 7, at degree 2, with the
  scalars \<open>[5, 0, 1]\<close> and the transcript \<open>[2, 4]\<close> on disk, the dump written is
  \<open>[1, 2, 4]\<close>: its element zero is 1, the identity is 0, and adding 1 to 2 gives 3.
\<close>

theorem transform_prepends_the_generator:
  "map_sum id (\<lambda>fs. fs ''../setup_db/g1_x_prep.dat'')
     (transform Z7_streaming Z7_G1 Z7_G2
        [''../setup_db/generator.dat'' \<mapsto> Fr_records [5, 0, 1],
         ''../setup_db/transcript.dat'' \<mapsto> G1_records [2, 4]] 2)
     = Inr (Some (G1_records [1, 2, 4])) \<and>
   zero Z7_G1 \<noteq> 1 \<and> add Z7_G1 1 2 = 3"
  by (simp add: transform_def Z7_streaming_def Z7_G1_def Z7_G2_def Let_def)

text \<open>
  C9 as amended: whenever the two loaders return, the generator-polynomial loader with
  the \<open>degree+1\<close> scalars it was asked for (the sum taken in \<^verbatim>\<open>size_t\<close>) and the
  transcript loader with \<open>degree\<close> elements of the first group, the tool writes the
  scalars as they were loaded, \<open>degree+1\<close> of them, and writes the first-group dump with
  \<^verbatim>\<open>G1::one()\<close>, the generator, as element zero in front of the loaded elements: one
  record more than \<open>degree\<close>. Nothing else on disk changes.
\<close>

theorem transform_writes_generator_and_loaded_elements:
  assumes "read_field_elements_from_file S fs [] ''../setup_db/generator.dat''
             (polynomial_degree + 1) = Inr generator_polynomial"
    and "length generator_polynomial = unat (polynomial_degree + 1)"
    and "read_transcript S fs (replicate (unat polynomial_degree) (zero G1))
             (replicate (unat polynomial_degree) (zero G2)) ''../setup_db/transcript.dat''
           = Inr (g1_x, g2_x, manifest)"
    and "length g1_x = unat polynomial_degree"
  shows "transform S G1 G2 fs polynomial_degree =
           Inr (fs(''../setup_db/generator_prep.dat'' \<mapsto> Fr_records generator_polynomial,
                   ''../setup_db/g1_x_prep.dat'' \<mapsto> G1_records (one G1 # g1_x))) \<and>
         length (one G1 # g1_x) = unat polynomial_degree + 1 \<and>
         length generator_polynomial = unat (polynomial_degree + 1)"
  using assms by (simp add: transform_def Let_def)

text \<open>
  C9 as amended, at degree 2 on the engine of order 7, with four scalars and three
  transcript elements on disk: the loaders return \<open>[5, 0, 1]\<close> and \<open>[2, 4]\<close>, and the tool
  writes \<open>[5, 0, 1]\<close> and \<open>[1, 2, 4]\<close>.
\<close>

theorem transform_writes_generator_and_loaded_elements_witness:
  "transform Z7_streaming Z7_G1 Z7_G2
     [''../setup_db/generator.dat'' \<mapsto> Fr_records [5, 0, 1, 3],
      ''../setup_db/transcript.dat'' \<mapsto> G1_records [2, 4, 1]] 2 =
     Inr [''../setup_db/generator.dat'' \<mapsto> Fr_records [5, 0, 1, 3],
          ''../setup_db/transcript.dat'' \<mapsto> G1_records [2, 4, 1],
          ''../setup_db/generator_prep.dat'' \<mapsto> Fr_records [5, 0, 1],
          ''../setup_db/g1_x_prep.dat'' \<mapsto> G1_records [1, 2, 4]] \<and>
   length [1, 2, 4 :: nat] = unat (2 :: size_t) + 1 \<and>
   length [5, 0, 1 :: nat] = unat (2 + 1 :: size_t)"
proof -
  let ?fs = "[''../setup_db/generator.dat'' \<mapsto> Fr_records [5, 0, 1, 3],
              ''../setup_db/transcript.dat'' \<mapsto> G1_records [2, 4, 1 :: nat]]
             :: (nat, nat) files"
  have loaded_scalars:
    "read_field_elements_from_file Z7_streaming ?fs [] ''../setup_db/generator.dat'' (2 + 1)
       = Inr [5, 0, 1]"
    by (simp add: Z7_streaming_def)
  have scalar_count: "length [5, 0, 1 :: nat] = unat (2 + 1 :: size_t)"
    by simp
  have loaded_points:
    "read_transcript Z7_streaming ?fs (replicate (unat (2 :: size_t)) (zero Z7_G1))
       (replicate (unat (2 :: size_t)) (zero Z7_G2)) ''../setup_db/transcript.dat''
       = Inr ([2, 4], replicate (unat (2 :: size_t)) (zero Z7_G2), ())"
    by (simp add: Z7_streaming_def)
  have point_count: "length [2, 4 :: nat] = unat (2 :: size_t)"
    by simp
  show ?thesis
    using transform_writes_generator_and_loaded_elements
            [OF loaded_scalars scalar_count loaded_points point_count]
    by (simp add: Z7_G1_def)
qed

end
